theory Spec2Isabelle
  imports Main "HOL-Library.Word"
begin

section \<open>The proof-of-existence panel of \<open>src/TemplateModule.js\<close>\<close>

text \<open>
  The file holds one React component, \<open>Main\<close>, and its guard \<open>TemplateModule\<close>.
  The component state is the six \<open>useState\<close> cells; every callback of the source
  becomes a function from the state to the new state, and every place where the
  JavaScript can throw becomes an \<open>Inl\<close> branch.
\<close>

subsection \<open>Values, errors and the component state\<close>

type_synonym u8 = "8 word"
type_synonym u32 = "32 word"

text \<open>The exceptions JavaScript can raise in this file: the two built-in kinds the code
  can meet, and \<open>Error\<close> with its message for what a library throws.\<close>

datatype error = RangeError | TypeError | Error string

text \<open>\<open>currentValue\<close> and \<open>formValue\<close> hold a number at first and a string later
  (\<open>'<None>'\<close>, the text of the input field), so both kinds of value are kept.\<close>

datatype jsval = JNum int | JStr string

record state =
  status :: string
  digest :: string
  owner :: string
  block :: int
  currentValue :: jsval
  formValue :: jsval

text \<open>The initial values given to \<open>useState\<close> (lines 17 to 25).\<close>

definition initial_state :: state where
  "initial_state =
     \<lparr>status = '''', digest = '''', owner = '''', block = 0,
      currentValue = JNum 0, formValue = JNum 0\<rparr>"

definition setStatus :: "string \<Rightarrow> state \<Rightarrow> state" where
  "setStatus s st = st\<lparr>status := s\<rparr>"

definition setDigest :: "string \<Rightarrow> state \<Rightarrow> state" where
  "setDigest h st = st\<lparr>digest := h\<rparr>"

definition setOwner :: "string \<Rightarrow> state \<Rightarrow> state" where
  "setOwner a st = st\<lparr>owner := a\<rparr>"

definition setBlock :: "int \<Rightarrow> state \<Rightarrow> state" where
  "setBlock n st = st\<lparr>block := n\<rparr>"

definition setCurrentValue :: "jsval \<Rightarrow> state \<Rightarrow> state" where
  "setCurrentValue v st = st\<lparr>currentValue := v\<rparr>"

definition setFormValue :: "jsval \<Rightarrow> state \<Rightarrow> state" where
  "setFormValue v st = st\<lparr>formValue := v\<rparr>"

subsection \<open>Hexadecimal rendering of the file content\<close>

text \<open>The digit alphabet of \<open>Number.prototype.toString(radix)\<close>.\<close>

definition digits :: string where
  "digits = ''0123456789abcdefghijklmnopqrstuvwxyz''"

text \<open>The digits of a non-negative integer in a radix of at least 2, most significant
  first. The guard on the radix is what makes the recursion end; \<open>toString\<close> below
  rejects every other radix before it gets here.\<close>

function radix_digits :: "nat \<Rightarrow> nat \<Rightarrow> string" where
  "radix_digits n radix =
     (if n < radix \<or> radix < 2 then [digits ! n]
      else radix_digits (n div radix) radix @ [digits ! (n mod radix)])"
  by pat_completeness auto
termination
  by (relation "measure fst") auto

text \<open>\<open>b.toString(radix)\<close> on a non-negative integer: a \<open>RangeError\<close> unless the
  radix lies between 2 and 36.\<close>

definition toString :: "nat \<Rightarrow> nat \<Rightarrow> error + string" where
  "toString n radix =
     (if radix < 2 \<or> 36 < radix then Inl RangeError else Inr (radix_digits n radix))"

text \<open>\<open>s.padStart(targetLength, padString)\<close>: the pad string is repeated and cut to
  the missing length; nothing happens when the string is long enough or the pad is
  empty.\<close>

definition padStart :: "string \<Rightarrow> nat \<Rightarrow> string \<Rightarrow> string" where
  "padStart s targetLength padString =
     (if targetLength \<le> length s \<or> padString = [] then s
      else take (targetLength - length s)
             (concat (replicate (targetLength - length s) padString)) @ s)"

text \<open>\<open>Array.prototype.map\<close> with a callback that may throw: the first exception
  leaves the loop.\<close>

fun array_map :: "('a \<Rightarrow> error + 'b) \<Rightarrow> 'a list \<Rightarrow> error + 'b list" where
  "array_map f [] = Inr []"
| "array_map f (x # xs) =
     (case f x of
        Inl e \<Rightarrow> Inl e
      | Inr y \<Rightarrow> (case array_map f xs of Inl e \<Rightarrow> Inl e | Inr ys \<Rightarrow> Inr (y # ys)))"

text \<open>\<open>fileReader.result\<close> once \<open>onloadend\<close> fires after \<open>readAsArrayBuffer\<close>:
  the bytes of the file, or \<open>null\<close> when the read failed.\<close>

datatype reader_result = Null | ArrayBuffer "u8 list"

text \<open>\<open>Array.from(new Uint8Array(r))\<close>: \<open>new Uint8Array(null)\<close> is the empty
  array.\<close>

fun Uint8Array :: "reader_result \<Rightarrow> u8 list" where
  "Uint8Array Null = []"
| "Uint8Array (ArrayBuffer bs) = bs"

text \<open>The callback of line 34, \<open>(b) => b.toString(16).padStart(2, '0')\<close>.\<close>

definition byte_hex :: "u8 \<Rightarrow> error + string" where
  "byte_hex b =
     (case toString (unat b) 16 of
        Inl e \<Rightarrow> Inl e
      | Inr s \<Rightarrow> Inr (padStart s 2 ''0''))"

text \<open>Lines 33 to 35: the \<open>content\<close> constant of \<open>bufferToDigest\<close>.\<close>

definition content :: "reader_result \<Rightarrow> error + string" where
  "content r =
     (case array_map byte_hex (Uint8Array r) of
        Inl e \<Rightarrow> Inl e
      | Inr parts \<Rightarrow> Inr (concat parts))"

subsection \<open>The digest\<close>

text \<open>\<open>blake2AsHex\<close> comes from \<open>@polkadot/util-crypto\<close>; it is a parameter of the
  model, a function of the text and the bit length that may throw.\<close>

type_synonym hash = "string \<Rightarrow> nat \<Rightarrow> error + string"

text \<open>Lines 31 to 39.\<close>

definition bufferToDigest :: "hash \<Rightarrow> reader_result \<Rightarrow> state \<Rightarrow> error + state" where
  "bufferToDigest blake2AsHex r st =
     (case content r of
        Inl e \<Rightarrow> Inl e
      | Inr c \<Rightarrow>
          (case blake2AsHex c 256 of
             Inl e \<Rightarrow> Inl e
           | Inr h \<Rightarrow> Inr (setDigest h st)))"

text \<open>Lines 75 to 79. \<open>readAsArrayBuffer\<close> throws a \<open>TypeError\<close> when it is given
  no file (\<open>e.target.files[0]\<close> is \<open>undefined\<close> when the dialog is cancelled).
  Otherwise the read ends with the result \<open>reader f\<close> of the file and
  \<open>onloadend\<close> runs \<open>bufferToDigest\<close> on the state of that moment.\<close>

definition handleFileChosen ::
  "hash \<Rightarrow> ('f \<Rightarrow> reader_result) \<Rightarrow> 'f option \<Rightarrow> state \<Rightarrow> error + state" where
  "handleFileChosen blake2AsHex reader file st =
     (case file of
        None \<Rightarrow> Inl TypeError
      | Some f \<Rightarrow> bufferToDigest blake2AsHex (reader f) st)"

subsection \<open>What the claims call the hexadecimal encoding\<close>

text \<open>The encoding as the specification words it: every byte as two lowercase base-16
  digits, high nibble first, concatenated in order; and the decoder that reads such a
  string back.\<close>

definition hex_digit :: "nat \<Rightarrow> char" where
  "hex_digit d = ''0123456789abcdef'' ! d"

definition hex_encode :: "u8 list \<Rightarrow> string" where
  "hex_encode bs = concat (map (\<lambda>b. [hex_digit (unat b div 16), hex_digit (unat b mod 16)]) bs)"

definition hex_val :: "char \<Rightarrow> nat option" where
  "hex_val c =
     (let n = (of_char c :: nat) in
      if 48 \<le> n \<and> n \<le> 57 then Some (n - 48)
      else if 97 \<le> n \<and> n \<le> 102 then Some (n - 87)
      else None)"

fun hex_decode :: "string \<Rightarrow> u8 list option" where
  "hex_decode [] = Some []"
| "hex_decode [c] = None"
| "hex_decode (c # d # cs) =
     (case (hex_val c, hex_val d, hex_decode cs) of
        (Some hi, Some lo, Some bs) \<Rightarrow> Some (of_nat (16 * hi + lo) # bs)
      | _ \<Rightarrow> None)"

subsection \<open>The two chain subscriptions of the effect\<close>

text \<open>\<open>Option.isNone\<close>, \<open>Option.unwrap\<close> and \<open>toNumber\<close> of the chain client's
  types: \<open>unwrap\<close> throws on \<open>None\<close>, and \<open>toNumber\<close> throws when the integer
  needs more than 53 bits.\<close>

definition isNone :: "'a option \<Rightarrow> bool" where
  "isNone v = (v = None)"

definition unwrap :: "'a option \<Rightarrow> error + 'a" where
  "unwrap v =
     (case v of
        None \<Rightarrow> Inl (Error ''Option: unwrapping a None value'')
      | Some x \<Rightarrow> Inr x)"

definition toNumber :: "'a::len word \<Rightarrow> error + int" where
  "toNumber w =
     (if uint w < 2 ^ 53 then Inr (uint w)
      else Inl (Error ''Number can only safely store up to 53 bits''))"

text \<open>Lines 44 to 52: the callback given to \<open>templateModule.something\<close>, whose
  storage value is an \<open>Option<u32>\<close>.\<close>

definition something_callback :: "u32 option \<Rightarrow> state \<Rightarrow> error + state" where
  "something_callback newValue st =
     (if isNone newValue then Inr (setCurrentValue (JStr ''<None>'') st)
      else
        (case unwrap newValue of
           Inl e \<Rightarrow> Inl e
         | Inr x \<Rightarrow>
             (case toNumber x of
                Inl e \<Rightarrow> Inl e
              | Inr n \<Rightarrow> Inr (setCurrentValue (JNum n) st))))"

text \<open>Lines 60 to 64: the callback given to \<open>templateModule.proofs\<close>. The result is
  the pair of the owner (already rendered by \<open>toString\<close>) and the block number.\<close>

definition proofs_callback :: "string \<times> u32 \<Rightarrow> state \<Rightarrow> error + state" where
  "proofs_callback result st =
     (case toNumber (snd result) of
        Inl e \<Rightarrow> Inl e
      | Inr n \<Rightarrow> Inr (setBlock n (setOwner (fst result) st)))"

text \<open>One run of the effect (lines 42 to 72). Both registrations return a promise of
  an unsubscribe handle; a handle is named by the subscription it cancels. The run owns
  the single variable \<open>unsubscribe\<close> (\<open>None\<close> is \<open>undefined\<close>); \<open>active\<close> is the
  set of subscriptions that are established and not yet cancelled, \<open>console_error\<close>
  what was given to \<open>console.error\<close>, \<open>unhandled\<close> the rejections no handler took.\<close>

datatype subscription = Something | Proofs

record effect =
  unsubscribe :: "subscription option"
  active :: "subscription set"
  console_error :: "error list"
  unhandled :: "error list"

definition useEffect :: effect where
  "useEffect = \<lparr>unsubscribe = None, active = {}, console_error = [], unhandled = []\<rparr>"

datatype effect_event = Resolved subscription | Rejected subscription error | Cleanup

text \<open>Both \<open>then\<close> handlers store their handle in the same variable; only the promise
  of \<open>something\<close> has a \<open>catch\<close>; the cleanup calls the stored handle if there is
  one.\<close>

fun effect_step :: "effect \<Rightarrow> effect_event \<Rightarrow> effect" where
  "effect_step e (Resolved s) = e\<lparr>unsubscribe := Some s, active := insert s (active e)\<rparr>"
| "effect_step e (Rejected Something err) = e\<lparr>console_error := console_error e @ [err]\<rparr>"
| "effect_step e (Rejected Proofs err) = e\<lparr>unhandled := unhandled e @ [err]\<rparr>"
| "effect_step e Cleanup =
     (case unsubscribe e of
        None \<Rightarrow> e
      | Some s \<Rightarrow> e\<lparr>active := active e - {s}\<rparr>)"

definition effect_run :: "effect_event list \<Rightarrow> effect" where
  "effect_run evs = foldl effect_step useEffect evs"

subsection \<open>Rendering\<close>

record account =
  address :: string

record props =
  accountPair :: "account option"

record attrs =
  palletRpc :: string
  callable :: string
  inputParams :: "jsval list"
  paramFields :: "bool list"

text \<open>The properties a \<open>TxButton\<close> is given; \<open>tx_disabled\<close> is \<open>None\<close> where the
  property is absent.\<close>

record TxButton =
  tx_accountPair :: "account option"
  tx_label :: string
  tx_type :: string
  tx_setStatus :: "string \<Rightarrow> state \<Rightarrow> state"
  tx_disabled :: "bool option"
  tx_attrs :: attrs

text \<open>What the returned markup depends on: the statistic, the two flags of the second
  form, the two messages, the three buttons in document order and the status line.\<close>

record view =
  statistic_value :: jsval
  form_success :: bool
  form_warning :: bool
  success_content :: string
  warning_list :: "string list"
  store_button :: TxButton
  create_button :: TxButton
  revoke_button :: TxButton
  status_text :: string

definition tx_buttons :: "view \<Rightarrow> TxButton list" where
  "tx_buttons v = [store_button v, create_button v, revoke_button v]"

text \<open>Lines 82 to 84.\<close>

definition isClaimed :: "state \<Rightarrow> bool" where
  "isClaimed st = (block st \<noteq> 0)"

text \<open>A number inside a template literal: its decimal digits, with the sign.\<close>

definition number_text :: "int \<Rightarrow> string" where
  "number_text i =
     (if i < 0 then ''-'' @ radix_digits (nat (- i)) 10 else radix_digits (nat i) 10)"

text \<open>\<open>!isClaimed() || owner !== accountPair.address\<close> (line 166): the right operand
  is only evaluated for a claimed digest, and reading \<open>address\<close> of \<open>null\<close> throws.\<close>

definition revoke_disabled :: "props \<Rightarrow> state \<Rightarrow> error + bool" where
  "revoke_disabled p st =
     (if \<not> isClaimed st then Inr True
      else
        (case accountPair p of
           None \<Rightarrow> Inl TypeError
         | Some a \<Rightarrow> Inr (owner st \<noteq> address a)))"

text \<open>Lines 87 to 179.\<close>

definition Main :: "props \<Rightarrow> state \<Rightarrow> error + view" where
  "Main p st =
     (case revoke_disabled p st of
        Inl e \<Rightarrow> Inl e
      | Inr rd \<Rightarrow>
          Inr \<lparr>statistic_value = currentValue st,
               form_success = (digest st \<noteq> [] \<and> \<not> isClaimed st),
               form_warning = isClaimed st,
               success_content = digest st,
               warning_list =
                 [digest st, ''Owner: '' @ owner st, ''Block: '' @ number_text (block st)],
               store_button =
                 \<lparr>tx_accountPair = accountPair p, tx_label = ''Store Something'',
                  tx_type = ''SIGNED-TX'', tx_setStatus = setStatus, tx_disabled = None,
                  tx_attrs =
                    \<lparr>palletRpc = ''templateModule'', callable = ''doSomething'',
                     inputParams = [formValue st], paramFields = [True]\<rparr>\<rparr>,
               create_button =
                 \<lparr>tx_accountPair = accountPair p, tx_label = ''Create Claim'',
                  tx_type = ''SIGNED-TX'', tx_setStatus = setStatus,
                  tx_disabled = Some (isClaimed st \<or> digest st = []),
                  tx_attrs =
                    \<lparr>palletRpc = ''templateModule'', callable = ''createClaim'',
                     inputParams = [JStr (digest st)], paramFields = [True]\<rparr>\<rparr>,
               revoke_button =
                 \<lparr>tx_accountPair = accountPair p, tx_label = ''Revoke Claim'',
                  tx_type = ''SIGNED-TX'', tx_setStatus = setStatus,
                  tx_disabled = Some rd,
                  tx_attrs =
                    \<lparr>palletRpc = ''templateModule'', callable = ''revokeClaim'',
                     inputParams = [JStr (digest st)], paramFields = [True]\<rparr>\<rparr>,
               status_text = status st\<rparr>)"

subsection \<open>The exported component\<close>

text \<open>\<open>api.query\<close> maps a pallet name to its storage entries, and a pallet maps an
  entry name to a query function; a missing property is \<open>None\<close>.\<close>

record 'q api =
  query :: "string \<rightharpoonup> (string \<rightharpoonup> 'q)"

datatype element = NoElement | MainElement props

text \<open>Lines 182 to 186.\<close>

definition TemplateModule :: "'q api \<Rightarrow> props \<Rightarrow> element" where
  "TemplateModule a p =
     (case query a ''templateModule'' of
        None \<Rightarrow> NoElement
      | Some tm \<Rightarrow>
          (case tm ''something'' of
             None \<Rightarrow> NoElement
           | Some _ \<Rightarrow>
               (case tm ''proofs'' of
                  None \<Rightarrow> NoElement
                | Some _ \<Rightarrow> MainElement p)))"

subsection \<open>Events that reach the component\<close>

text \<open>What can call into the component between two renderings: a \<open>TxButton\<close>
  reporting a status, a finished file read, a value from either subscription, and the
  number field changing. An exception inside a callback leaves the state as it was.\<close>

datatype event =
  TxStatus string
  | FileLoaded reader_result
  | SomethingValue "u32 option"
  | ProofsValue "string \<times> u32"
  | NewValueChanged string

fun on_event :: "hash \<Rightarrow> event \<Rightarrow> state \<Rightarrow> error + state" where
  "on_event h (TxStatus s) st = Inr (setStatus s st)"
| "on_event h (FileLoaded r) st = bufferToDigest h r st"
| "on_event h (SomethingValue v) st = something_callback v st"
| "on_event h (ProofsValue r) st = proofs_callback r st"
| "on_event h (NewValueChanged s) st = Inr (setFormValue (JStr s) st)"

fun run :: "hash \<Rightarrow> event list \<Rightarrow> state \<Rightarrow> state" where
  "run h [] st = st"
| "run h (ev # evs) st =
     (case on_event h ev st of
        Inl e \<Rightarrow> run h evs st
      | Inr st' \<Rightarrow> run h evs st')"

text \<open>The strings given to \<open>setStatus\<close> along a sequence of events, in order.\<close>

fun status_calls :: "event list \<Rightarrow> string list" where
  "status_calls [] = []"
| "status_calls (TxStatus s # evs) = s # status_calls evs"
| "status_calls (ev # evs) = status_calls evs"

section \<open>Properties\<close>

subsection \<open>The hexadecimal text\<close>

lemma nibble_cases:
  "d < 16 \<Longrightarrow> d = 0 \<or> d = 1 \<or> d = 2 \<or> d = 3 \<or> d = 4 \<or> d = 5 \<or> d = 6 \<or> d = 7 \<or> d = 8
     \<or> d = 9 \<or> d = 10 \<or> d = 11 \<or> d = 12 \<or> d = 13 \<or> d = 14 \<or> d = (15::nat)"
  by arith

lemma digits_hex_digit: "d < 16 \<Longrightarrow> digits ! d = hex_digit d"
  by (drule nibble_cases) (auto simp: digits_def hex_digit_def)

lemma hex_val_hex_digit: "d < 16 \<Longrightarrow> hex_val (hex_digit d) = Some d"
  by (drule nibble_cases) (auto simp: hex_digit_def hex_val_def)

lemma hex_digit_in_alphabet: "d < 16 \<Longrightarrow> hex_digit d \<in> set ''0123456789abcdef''"
  by (drule nibble_cases) (auto simp: hex_digit_def)

lemma unat_u8_less: "unat (b :: u8) < 256"
  using unsigned_less [of b, where ?'a = nat] by simp

text \<open>A byte is below 256, so \<open>toString(16)\<close> gives one or two digits and
  \<open>padStart\<close> makes it two.\<close>

lemma byte_hex_eq:
  "byte_hex b = Inr [hex_digit (unat b div 16), hex_digit (unat b mod 16)]"
proof -
  let ?n = "unat b"
  have hi: "?n div 16 < 16" using unat_u8_less [of b] by simp
  have lo: "?n mod 16 < 16" by simp
  have "padStart (radix_digits ?n 16) 2 ''0'' = [digits ! (?n div 16), digits ! (?n mod 16)]"
    using hi by (simp add: padStart_def digits_def)
  then show ?thesis
    using hi lo by (simp add: byte_hex_def toString_def digits_hex_digit)
qed

lemma array_map_byte_hex:
  "array_map byte_hex bs =
     Inr (map (\<lambda>b. [hex_digit (unat b div 16), hex_digit (unat b mod 16)]) bs)"
  by (induction bs) (simp_all add: byte_hex_eq)

lemma content_hex_encode: "content r = Inr (hex_encode (Uint8Array r))"
  by (simp add: content_def array_map_byte_hex hex_encode_def)

lemma hex_encode_Cons:
  "hex_encode (b # bs) = hex_digit (unat b div 16) # hex_digit (unat b mod 16) # hex_encode bs"
  by (simp add: hex_encode_def)

lemma length_hex_encode: "length (hex_encode bs) = 2 * length bs"
  by (induction bs) (simp_all add: hex_encode_def)

lemma hex_encode_alphabet: "set (hex_encode bs) \<subseteq> set ''0123456789abcdef''"
proof (induction bs)
  case Nil
  show ?case by (simp add: hex_encode_def)
next
  case (Cons b bs)
  have hi: "unat b div 16 < 16" using unat_u8_less [of b] by simp
  have lo: "unat b mod 16 < 16" by simp
  from Cons hex_digit_in_alphabet [OF hi] hex_digit_in_alphabet [OF lo]
  show ?case unfolding hex_encode_Cons by simp
qed

lemma hex_decode_encode: "hex_decode (hex_encode bs) = Some bs"
proof (induction bs)
  case Nil
  show ?case by (simp add: hex_encode_def)
next
  case (Cons b bs)
  have hi: "unat b div 16 < 16" using unat_u8_less [of b] by simp
  have lo: "unat b mod 16 < 16" by simp
  have "(of_nat (16 * (unat b div 16) + unat b mod 16) :: u8) = b"
    by simp
  with Cons hi lo show ?case
    by (simp add: hex_encode_Cons hex_val_hex_digit)
qed

text \<open>The whole of \<open>bufferToDigest\<close> in one equation: the only branch that can fail
  is the hash.\<close>

lemma bufferToDigest_eq:
  "bufferToDigest blake2AsHex r st =
     (case blake2AsHex (hex_encode (Uint8Array r)) 256 of
        Inl e \<Rightarrow> Inl e
      | Inr h \<Rightarrow> Inr (st\<lparr>digest := h\<rparr>))"
  by (simp add: bufferToDigest_def content_hex_encode setDigest_def split: sum.split)

text \<open>
  Claim C1. For every byte array \<open>B\<close> the file reader delivers, \<open>bufferToDigest\<close>
  sets \<open>digest\<close> to what \<open>blake2AsHex\<close> returns, at bit length 256, for the
  hexadecimal text of \<open>B\<close>: the hash is given the text, not the bytes, and nothing
  else of the state changes.
\<close>

theorem bufferToDigest_hashes_hex_text:
  assumes "blake2AsHex (hex_encode B) 256 = Inr h"
  shows "bufferToDigest blake2AsHex (ArrayBuffer B) st = Inr (st\<lparr>digest := h\<rparr>)"
  using assms by (simp add: bufferToDigest_eq)

theorem bufferToDigest_hashes_hex_text_witness:
  "bufferToDigest (\<lambda>s n. Inr (''0x'' @ s)) (ArrayBuffer [10, 255]) initial_state
     = Inr (initial_state\<lparr>digest := ''0x0aff''\<rparr>)"
  using bufferToDigest_hashes_hex_text
          [of "\<lambda>s n. Inr (''0x'' @ s)" "[10, 255]" "''0x0aff''" initial_state]
  by (simp add: hex_encode_def hex_digit_def)

text \<open>
  Claim C2. The text computed inside \<open>bufferToDigest\<close> (\<open>toString(16)\<close>,
  \<open>padStart(2, '0')\<close>, \<open>join('')\<close>) is, for every byte array, the concatenation in
  order of two lowercase base-16 digits per byte, so it has twice as many characters as
  there are bytes and decodes back to the bytes.
\<close>

theorem content_two_digit_hex:
  "content (ArrayBuffer B) = Inr (hex_encode B)
   \<and> length (hex_encode B) = 2 * length B
   \<and> hex_decode (hex_encode B) = Some B"
  using content_hex_encode [of "ArrayBuffer B"]
  by (simp add: length_hex_encode hex_decode_encode)

text \<open>
  Claim C5. The digest depends on the bytes of the file only: two runs of
  \<open>bufferToDigest\<close> on the same reader result, from any two component states, end
  with the same digest (or with the same exception of the hash), and so do two runs of
  \<open>handleFileChosen\<close> on the same file. Neither function reads the account, and the
  states may differ in \<open>formValue\<close>, \<open>owner\<close>, \<open>block\<close> and \<open>currentValue\<close>.
\<close>

theorem digest_depends_on_bytes_only:
  "map_sum id digest (bufferToDigest blake2AsHex r st1)
     = map_sum id digest (bufferToDigest blake2AsHex r st2)
   \<and> map_sum id digest (handleFileChosen blake2AsHex reader file st1)
     = map_sum id digest (handleFileChosen blake2AsHex reader file st2)"
  by (simp add: handleFileChosen_def bufferToDigest_eq split: sum.split option.split)

text \<open>
  Claim C6. The hashing step has no failure branch of its own. For every reader result,
  the empty array and \<open>null\<close> included, the map and the join give a text of hexadecimal
  digits, two per byte, and \<open>bufferToDigest\<close> fails exactly when the hash called on
  that text fails, and stores the hash in \<open>digest\<close> otherwise.
\<close>

theorem hashing_step_total:
  "\<exists>c. content r = Inr c
     \<and> length c = 2 * length (Uint8Array r)
     \<and> set c \<subseteq> set ''0123456789abcdef''
     \<and> bufferToDigest blake2AsHex r st =
         (case blake2AsHex c 256 of Inl e \<Rightarrow> Inl e | Inr h \<Rightarrow> Inr (st\<lparr>digest := h\<rparr>))"
proof (intro exI conjI)
  show "content r = Inr (hex_encode (Uint8Array r))" by (rule content_hex_encode)
  show "length (hex_encode (Uint8Array r)) = 2 * length (Uint8Array r)"
    by (rule length_hex_encode)
  show "set (hex_encode (Uint8Array r)) \<subseteq> set ''0123456789abcdef''"
    by (rule hex_encode_alphabet)
  show "bufferToDigest blake2AsHex r st =
         (case blake2AsHex (hex_encode (Uint8Array r)) 256 of
            Inl e \<Rightarrow> Inl e | Inr h \<Rightarrow> Inr (st\<lparr>digest := h\<rparr>))"
    by (rule bufferToDigest_eq)
qed

theorem hashing_step_total_witness:
  "\<exists>c. content (ArrayBuffer []) = Inr c \<and> length c = 0
     \<and> bufferToDigest (\<lambda>s n. Inr (''0x'' @ s)) (ArrayBuffer []) initial_state
         = Inr (initial_state\<lparr>digest := ''0x'' @ c\<rparr>)"
  using hashing_step_total [of "ArrayBuffer []" "\<lambda>s n. Inr (''0x'' @ s)" initial_state]
  by auto

subsection \<open>The subscriptions\<close>

text \<open>
  Claim C3. The claim is that the cleanup of a run of the effect calls the unsubscribe
  handle of both subscriptions. The run keeps one variable for both handles, so the
  handle that arrives second replaces the first: when both registrations have resolved
  and the cleanup runs, the subscription whose handle arrived first is still active.
\<close>

theorem cleanup_calls_one_handle:
  "active (effect_run [Resolved Something, Resolved Proofs, Cleanup]) = {Something}
   \<and> active (effect_run [Resolved Proofs, Resolved Something, Cleanup]) = {Proofs}"
  by (auto simp: effect_run_def useEffect_def)

lemma toNumber_u32: "toNumber (w :: u32) = Inr (uint w)"
proof -
  have "uint w < 2 ^ 32" using uint_bounded [of w] by simp
  also have "(2 :: int) ^ 32 < 2 ^ 53" by simp
  finally show ?thesis by (simp add: toNumber_def)
qed

text \<open>
  Claim C8. For every value the \<open>something\<close> subscription delivers, the callback sets
  \<open>currentValue\<close> to the string \<open>'<None>'\<close> for \<open>None\<close> and to the number held for
  \<open>Some\<close>; it never throws (\<open>unwrap\<close> is only reached for \<open>Some\<close>, and a \<open>u32\<close>
  fits a number); and a rejected registration of that subscription goes to
  \<open>console.error\<close> and is not left unhandled.
\<close>

theorem something_callback_never_throws:
  "something_callback None st = Inr (st\<lparr>currentValue := JStr ''<None>''\<rparr>)
   \<and> something_callback (Some w) st = Inr (st\<lparr>currentValue := JNum (uint w)\<rparr>)
   \<and> effect_step e (Rejected Something err) = e\<lparr>console_error := console_error e @ [err]\<rparr>
   \<and> unhandled (effect_step e (Rejected Something err)) = unhandled e"
  by (simp add: something_callback_def isNone_def unwrap_def toNumber_u32 setCurrentValue_def)

subsection \<open>The buttons and the status line\<close>

text \<open>Rendering fails only for a claimed digest with no account selected.\<close>

lemma Main_Inr_iff:
  "(\<exists>v. Main p st = Inr v) \<longleftrightarrow> (block st = 0 \<or> accountPair p \<noteq> None)"
  by (auto simp: Main_def revoke_disabled_def isClaimed_def split: option.splits)

text \<open>
  Claim C4. Whenever the component renders, its three \<open>TxButton\<close>s all have type
  \<open>'SIGNED-TX'\<close> and pallet \<open>'templateModule'\<close>; their callables are
  \<open>doSomething\<close> with the one parameter \<open>formValue\<close>, \<open>createClaim\<close> with the
  one parameter \<open>digest\<close>, and \<open>revokeClaim\<close> with the one parameter \<open>digest\<close>.
\<close>

theorem tx_buttons_signed_templateModule:
  assumes "Main p st = Inr v"
  shows "map (\<lambda>b. (tx_type b, palletRpc (tx_attrs b), callable (tx_attrs b),
                    inputParams (tx_attrs b))) (tx_buttons v)
         = [(''SIGNED-TX'', ''templateModule'', ''doSomething'', [formValue st]),
            (''SIGNED-TX'', ''templateModule'', ''createClaim'', [JStr (digest st)]),
            (''SIGNED-TX'', ''templateModule'', ''revokeClaim'', [JStr (digest st)])]"
  using assms
  by (auto simp: Main_def tx_buttons_def split: sum.splits)

theorem tx_buttons_signed_templateModule_witness:
  "\<exists>v. Main \<lparr>accountPair = Some \<lparr>address = ''5Alice''\<rparr>\<rparr>
           (initial_state\<lparr>digest := ''0xab'', formValue := JStr ''42''\<rparr>) = Inr v
     \<and> map (\<lambda>b. (tx_type b, palletRpc (tx_attrs b), callable (tx_attrs b),
                    inputParams (tx_attrs b))) (tx_buttons v)
         = [(''SIGNED-TX'', ''templateModule'', ''doSomething'', [JStr ''42'']),
            (''SIGNED-TX'', ''templateModule'', ''createClaim'', [JStr ''0xab'']),
            (''SIGNED-TX'', ''templateModule'', ''revokeClaim'', [JStr ''0xab''])]"
proof -
  let ?p = "\<lparr>accountPair = Some \<lparr>address = ''5Alice''\<rparr>\<rparr>"
  let ?st = "initial_state\<lparr>digest := ''0xab'', formValue := JStr ''42''\<rparr>"
  obtain v where v: "Main ?p ?st = Inr v"
    by (simp add: Main_def revoke_disabled_def isClaimed_def initial_state_def)
  from tx_buttons_signed_templateModule [OF v] v show ?thesis
    by (intro exI [of _ v]) simp
qed

text \<open>No callback but \<open>setStatus\<close> writes the status cell.\<close>

lemma bufferToDigest_status: "bufferToDigest h r st = Inr st' \<Longrightarrow> status st' = status st"
  by (auto simp: bufferToDigest_def setDigest_def split: sum.splits)

lemma something_callback_status:
  "something_callback x st = Inr st' \<Longrightarrow> status st' = status st"
  by (auto simp: something_callback_def setCurrentValue_def split: sum.splits if_splits)

lemma proofs_callback_status: "proofs_callback x st = Inr st' \<Longrightarrow> status st' = status st"
  by (auto simp: proofs_callback_def setBlock_def setOwner_def split: sum.splits)

lemma run_status: "status (run h evs st) = last (status st # status_calls evs)"
proof (induction evs arbitrary: st)
  case Nil
  show ?case by simp
next
  case (Cons ev evs)
  show ?case
  proof (cases ev)
    case (TxStatus s)
    then show ?thesis by (simp add: Cons.IH setStatus_def)
  next
    case (FileLoaded r)
    then show ?thesis
      by (auto simp: Cons.IH split: sum.splits dest: bufferToDigest_status)
  next
    case (SomethingValue x)
    then show ?thesis
      by (auto simp: Cons.IH split: sum.splits dest: something_callback_status)
  next
    case (ProofsValue x)
    then show ?thesis
      by (auto simp: Cons.IH split: sum.splits dest: proofs_callback_status)
  next
    case (NewValueChanged s)
    then show ?thesis by (simp add: Cons.IH setFormValue_def)
  qed
qed

text \<open>
  Claim C7. The outcome of a transaction is left to the status callback. In every
  rendering after any sequence of events from the initial state, each of the three
  \<open>TxButton\<close>s is given the same \<open>setStatus\<close>; a status report changes the
  status cell and nothing else; and the status line shows the last string given to
  \<open>setStatus\<close>, the empty string when there was none.
\<close>

theorem status_delegated_to_setStatus:
  assumes "Main p (run h evs initial_state) = Inr v"
  shows "map tx_setStatus (tx_buttons v) = [setStatus, setStatus, setStatus]
         \<and> on_event h (TxStatus s) st = Inr (st\<lparr>status := s\<rparr>)
         \<and> status_text v = last ('''' # status_calls evs)"
proof -
  have "status (run h evs initial_state) = last ('''' # status_calls evs)"
    by (simp add: run_status initial_state_def)
  with assms show ?thesis
    by (auto simp: Main_def tx_buttons_def setStatus_def split: sum.splits)
qed

theorem status_delegated_to_setStatus_witness:
  "\<exists>v. Main \<lparr>accountPair = None\<rparr>
          (run (\<lambda>s n. Inr (''0x'' @ s))
             [TxStatus ''Sending...'', FileLoaded (ArrayBuffer [1]), TxStatus ''Finalized'',
              SomethingValue (Some 7)]
             initial_state) = Inr v
     \<and> map tx_setStatus (tx_buttons v) = [setStatus, setStatus, setStatus]
     \<and> status_text v = ''Finalized''"
proof -
  let ?p = "\<lparr>accountPair = None\<rparr>"
  let ?h = "\<lambda>(s::string) (n::nat). (Inr (''0x'' @ s) :: error + string)"
  let ?evs = "[TxStatus ''Sending...'', FileLoaded (ArrayBuffer [1]), TxStatus ''Finalized'',
              SomethingValue (Some 7)]"
  have "block (run ?h ?evs initial_state) = 0"
    by (simp add: bufferToDigest_eq something_callback_def isNone_def unwrap_def toNumber_def
        setStatus_def setCurrentValue_def initial_state_def)
  then obtain v where v: "Main ?p (run ?h ?evs initial_state) = Inr v"
    using Main_Inr_iff [of ?p "run ?h ?evs initial_state"] by blast
  from status_delegated_to_setStatus [OF v] v show ?thesis
    by (intro exI [of _ v]) simp
qed

text \<open>
  Claim C9. Create Claim and Revoke Claim are never both enabled. In every rendering,
  of any state and any account, Create Claim is disabled exactly when the digest is
  claimed or empty, Revoke Claim exactly when the digest is not claimed or the owner is
  not the address of the selected account, and so at least one of the two is disabled.
\<close>

theorem create_revoke_not_both_enabled:
  assumes "Main p st = Inr v"
  shows "tx_label (create_button v) = ''Create Claim''
         \<and> tx_label (revoke_button v) = ''Revoke Claim''
         \<and> tx_disabled (create_button v) = Some (isClaimed st \<or> digest st = [])
         \<and> tx_disabled (revoke_button v)
             = Some (\<not> isClaimed st \<or> Some (owner st) \<noteq> map_option address (accountPair p))
         \<and> (tx_disabled (create_button v) = Some True \<or> tx_disabled (revoke_button v) = Some True)"
  using assms
  by (auto simp: Main_def revoke_disabled_def split: sum.splits if_splits option.splits)

theorem create_revoke_not_both_enabled_witness:
  "\<exists>v. Main \<lparr>accountPair = Some \<lparr>address = ''5Alice''\<rparr>\<rparr>
          (initial_state\<lparr>digest := ''0xab'', owner := ''5Alice'', block := 12\<rparr>) = Inr v
     \<and> tx_disabled (create_button v) = Some True
     \<and> tx_disabled (revoke_button v) = Some False"
proof -
  let ?p = "\<lparr>accountPair = Some \<lparr>address = ''5Alice''\<rparr>\<rparr>"
  let ?st = "initial_state\<lparr>digest := ''0xab'', owner := ''5Alice'', block := 12\<rparr>"
  obtain v where v: "Main ?p ?st = Inr v"
    by (simp add: Main_def revoke_disabled_def isClaimed_def initial_state_def)
  from create_revoke_not_both_enabled [OF v] v show ?thesis
    by (intro exI [of _ v]) (simp add: isClaimed_def initial_state_def)
qed

subsection \<open>The guard of the exported component\<close>

text \<open>
  Claim C10. \<open>TemplateModule\<close> returns the \<open>Main\<close> panel, with the properties it
  was given, if and only if \<open>api.query.templateModule\<close> exists and has both the
  \<open>something\<close> and the \<open>proofs\<close> entry; in every other case it returns \<open>null\<close>.
\<close>

theorem TemplateModule_renders_Main_iff:
  "TemplateModule a p =
     (if \<exists>tm. query a ''templateModule'' = Some tm
            \<and> tm ''something'' \<noteq> None \<and> tm ''proofs'' \<noteq> None
      then MainElement p else NoElement)"
  by (auto simp: TemplateModule_def split: option.splits)

end
